theory Spec2Isabelle
  imports Main
begin

section \<open>The two notebooks and the library they drive\<close>

text \<open>
  The repository holds two notebooks. The Falcon notebook builds a text-generation
  \<open>pipeline\<close> and runs one cell that calls it and prints every returned sequence. The
  Mistral notebook loads a quantised model and a tokenizer, and runs one cell that
  tokenizes a text, calls \<open>model.generate\<close>, decodes the batch and prints its first
  entry. Tokenization, generation and decoding belong to the transformers library; they
  are parameters of the model below, free to return or to raise. What is embedded is
  the notebooks' own code: which arguments are passed, how often the library is called,
  what is printed.
\<close>

subsection \<open>Python values, exceptions and keyword arguments\<close>

datatype py_val = PyNone | PyBool bool | PyInt int | PyStr string

datatype py_error = KeyboardInterrupt | KeyError | IndexError | LibraryError string

type_synonym kwargs = "(string \<times> py_val) list"

text \<open>One element of the list a text-generation pipeline returns: a dictionary.\<close>

type_synonym py_dict = "(string \<times> string) list"

text \<open>The tokenizer's output (\<open>return_tensors="pt"\<close>): one row of ids per input text.\<close>

record batch_encoding =
  input_ids :: "int list list"
  attention_mask :: "int list list"

text \<open>The attributes of the tokenizer object that the notebooks read or assign.\<close>

record tokenizer_obj =
  eos_token_id :: py_val
  bos_token_id :: py_val

subsection \<open>The world: standard output and the calls made into the generator\<close>

datatype call =
    PipelineCall string kwargs
  | GenerateCall batch_encoding kwargs

fun kwargs_of :: "call \<Rightarrow> kwargs" where
  "kwargs_of (PipelineCall p kw) = kw"
| "kwargs_of (GenerateCall enc kw) = kw"

record world =
  stdout :: "string list"
  calls :: "call list"

definition print_line :: "string \<Rightarrow> world \<Rightarrow> world" where
  "print_line s w = w\<lparr>stdout := stdout w @ [s]\<rparr>"

text \<open>
  The library. Generation is sampled and keeps internal state, so what a generation call
  returns may depend on the calls made before it; it may also raise (the Falcon
  notebook's saved output is a \<open>KeyboardInterrupt\<close> raised inside \<open>pipeline(...)\<close>).
\<close>

record library =
  pipeline :: "call list \<Rightarrow> string \<Rightarrow> kwargs \<Rightarrow> py_error + py_dict list"
  tokenize :: "tokenizer_obj \<Rightarrow> string \<Rightarrow> kwargs \<Rightarrow> py_error + batch_encoding"
  generate :: "call list \<Rightarrow> batch_encoding \<Rightarrow> kwargs \<Rightarrow> py_error + int list list"
  batch_decode :: "tokenizer_obj \<Rightarrow> int list list \<Rightarrow> py_error + string list"

subsection \<open>Falcon notebook: the generation cell\<close>

text \<open>
  \<^verbatim>\<open>
  # Your prompt goes here!
  prompt = "who invented computers"

  sequences = pipeline(
      prompt,
      max_length=5000,
      do_sample=True,
      top_k=10,
      num_return_sequences=1,
      eos_token_id=tokenizer.eos_token_id,
  )
  for seq in sequences:
      print(f"Result: {seq['generated_text']}")
  \<close>
\<close>

definition falcon_prompt :: string where
  "falcon_prompt = ''who invented computers''"

definition falcon_kwargs :: "tokenizer_obj \<Rightarrow> kwargs" where
  "falcon_kwargs tok =
     [(''max_length'', PyInt 5000),
      (''do_sample'', PyBool True),
      (''top_k'', PyInt 10),
      (''num_return_sequences'', PyInt 1),
      (''eos_token_id'', eos_token_id tok)]"

text \<open>The \<open>for\<close> loop; \<open>seq['generated_text']\<close> raises \<open>KeyError\<close> on a missing key.\<close>

fun print_results :: "py_dict list \<Rightarrow> world \<Rightarrow> (py_error + unit) \<times> world" where
  "print_results [] w = (Inr (), w)"
| "print_results (seq # rest) w =
     (case map_of seq ''generated_text'' of
        None \<Rightarrow> (Inl KeyError, w)
      | Some t \<Rightarrow> print_results rest (print_line (''Result: '' @ t) w))"

definition falcon_generation_cell ::
  "library \<Rightarrow> tokenizer_obj \<Rightarrow> string \<Rightarrow> world \<Rightarrow> (py_error + unit) \<times> world" where
  "falcon_generation_cell lib tok prompt w =
     (let kw = falcon_kwargs tok;
          w1 = w\<lparr>calls := calls w @ [PipelineCall prompt kw]\<rparr>
      in case pipeline lib (calls w) prompt kw of
           Inl e \<Rightarrow> (Inl e, w1)
         | Inr sequences \<Rightarrow> print_results sequences w1)"

subsection \<open>Mistral notebook: the tokenizer cell and the generation cell\<close>

text \<open>
  \<^verbatim>\<open>
  tokenizer = AutoTokenizer.from_pretrained(model_name)
  tokenizer.bos_token_id = 1
  stop_token_ids = [0]

  print(f"Successfully loaded the model {model_name} into memory")
  \<close>
  The notebook's variables that later cells can see are kept in a record; the tokenizer
  that \<open>from_pretrained\<close> loads is a parameter.
\<close>

record mistral_globals =
  tokenizer :: tokenizer_obj
  stop_token_ids :: "int list"

definition model_name :: string where
  "model_name = ''filipealmeida/Mistral-7B-Instruct-v0.1-sharded''"

definition mistral_tokenizer_cell :: "tokenizer_obj \<Rightarrow> world \<Rightarrow> mistral_globals \<times> world" where
  "mistral_tokenizer_cell loaded w =
     (\<lparr>tokenizer = loaded\<lparr>bos_token_id := PyInt 1\<rparr>, stop_token_ids = [0]\<rparr>,
      print_line (''Successfully loaded the model '' @ model_name @ '' into memory'') w)"

text \<open>
  \<^verbatim>\<open>
  text = "[INST] ~Add your instrunctions here~ [/INST]"

  encoded = tokenizer(text, return_tensors="pt", add_special_tokens=False)
  model_input = encoded
  generated_ids = model.generate(**model_input, max_new_tokens=200, do_sample=True)
  decoded = tokenizer.batch_decode(generated_ids)
  print(decoded[0])
  \<close>
\<close>

definition mistral_text :: string where
  "mistral_text = ''[INST] ~Add your instrunctions here~ [/INST]''"

definition tokenizer_kwargs :: kwargs where
  "tokenizer_kwargs = [(''return_tensors'', PyStr ''pt''), (''add_special_tokens'', PyBool False)]"

definition generate_kwargs :: kwargs where
  "generate_kwargs = [(''max_new_tokens'', PyInt 200), (''do_sample'', PyBool True)]"

definition mistral_generation_cell ::
  "library \<Rightarrow> mistral_globals \<Rightarrow> string \<Rightarrow> world \<Rightarrow> (py_error + unit) \<times> world" where
  "mistral_generation_cell lib g text w =
     (case tokenize lib (tokenizer g) text tokenizer_kwargs of
        Inl e \<Rightarrow> (Inl e, w)
      | Inr encoded \<Rightarrow>
          (let model_input = encoded;
               w1 = w\<lparr>calls := calls w @ [GenerateCall model_input generate_kwargs]\<rparr>
           in case generate lib (calls w) model_input generate_kwargs of
                Inl e \<Rightarrow> (Inl e, w1)
              | Inr generated_ids \<Rightarrow>
                  (case batch_decode lib (tokenizer g) generated_ids of
                     Inl e \<Rightarrow> (Inl e, w1)
                   | Inr decoded \<Rightarrow>
                       (case decoded of
                          [] \<Rightarrow> (Inl IndexError, w1)
                        | d # ds \<Rightarrow> (Inr (), print_line d w1)))))"

subsection \<open>Concrete libraries and worlds for the examples\<close>

definition w0 :: world where
  "w0 = \<lparr>stdout = [], calls = []\<rparr>"

definition tok0 :: tokenizer_obj where
  "tok0 = \<lparr>eos_token_id = PyInt 11, bos_token_id = PyInt 1\<rparr>"

definition enc0 :: batch_encoding where
  "enc0 = \<lparr>input_ids = [[733, 16289]], attention_mask = [[1, 1]]\<rparr>"

text \<open>A library whose generator continues the prompt once and returns one sequence.\<close>

definition echo_lib :: library where
  "echo_lib =
     \<lparr>pipeline = (\<lambda>h p kw. Inr [[(''generated_text'', p @ '' ...'')]]),
      tokenize = (\<lambda>t s kw. Inr enc0),
      generate = (\<lambda>h e kw. Inr [[733, 16289, 28705]]),
      batch_decode = (\<lambda>t rows. Inr (map (\<lambda>r. ''row'') rows))\<rparr>"

text \<open>A library whose first generation call is interrupted; later calls return.\<close>

definition interrupted_once_lib :: library where
  "interrupted_once_lib =
     \<lparr>pipeline = (\<lambda>h p kw. if h = [] then Inl KeyboardInterrupt
                            else Inr [[(''generated_text'', p @ '' ...'')]]),
      tokenize = (\<lambda>t s kw. Inr enc0),
      generate = (\<lambda>h e kw. if h = [] then Inl KeyboardInterrupt else Inr [[733]]),
      batch_decode = (\<lambda>t rows. Inr (map (\<lambda>r. ''row'') rows))\<rparr>"

text \<open>The Mistral notebook's variables after its tokenizer cell, for a tokenizer whose
  own end-of-sequence id is 2.\<close>

definition mistral_tok0 :: tokenizer_obj where
  "mistral_tok0 = \<lparr>eos_token_id = PyInt 2, bos_token_id = PyNone\<rparr>"

definition g0 :: mistral_globals where
  "g0 = fst (mistral_tokenizer_cell mistral_tok0 w0)"

subsection \<open>Vocabulary of the statements\<close>

text \<open>A returned sequence that carries the key the loop reads, and the line the loop
  prints for it.\<close>

definition has_text :: "py_dict \<Rightarrow> bool" where
  "has_text seq = (map_of seq ''generated_text'' \<noteq> None)"

definition result_line :: "py_dict \<Rightarrow> string" where
  "result_line seq = ''Result: '' @ the (map_of seq ''generated_text'')"



section \<open>Properties\<close>

subsection \<open>Helper lemmas\<close>

lemma print_results_calls: "calls (snd (print_results seqs w)) = calls w"
  by (induction seqs arbitrary: w) (auto simp: print_line_def split: option.splits)

lemma print_results_error:
  "fst (print_results seqs w) = Inl e \<Longrightarrow> e = KeyError"
  by (induction seqs arbitrary: w) (auto split: option.splits)

lemma print_results_run:
  "print_results seqs w =
     ((if list_all has_text seqs then Inr () else Inl KeyError),
      w\<lparr>stdout := stdout w @ map result_line (takeWhile has_text seqs)\<rparr>)"
  by (induction seqs arbitrary: w) (auto simp: print_line_def has_text_def result_line_def)

lemma falcon_cell_calls:
  "calls (snd (falcon_generation_cell lib tok p w)) =
     calls w @ [PipelineCall p (falcon_kwargs tok)]"
  by (simp add: falcon_generation_cell_def Let_def print_results_calls split: sum.splits)

lemma falcon_cell_raises:
  "pipeline lib (calls w) p (falcon_kwargs tok) = Inl e \<Longrightarrow>
   falcon_generation_cell lib tok p w =
     (Inl e, w\<lparr>calls := calls w @ [PipelineCall p (falcon_kwargs tok)]\<rparr>)"
  by (simp add: falcon_generation_cell_def)

lemma falcon_cell_error:
  "fst (falcon_generation_cell lib tok p w) = Inl e \<Longrightarrow>
   e = KeyError \<or> pipeline lib (calls w) p (falcon_kwargs tok) = Inl e"
  by (auto simp: falcon_generation_cell_def Let_def split: sum.splits dest: print_results_error)

lemma mistral_cell_calls:
  "tokenize lib (tokenizer g) t tokenizer_kwargs = Inr enc \<Longrightarrow>
   calls (snd (mistral_generation_cell lib g t w)) = calls w @ [GenerateCall enc generate_kwargs]"
  by (simp add: mistral_generation_cell_def Let_def print_line_def split: sum.splits list.splits)

lemma mistral_cell_at_most_one_call:
  "length (calls (snd (mistral_generation_cell lib g t w))) \<le> Suc (length (calls w))"
proof (cases "tokenize lib (tokenizer g) t tokenizer_kwargs")
  case (Inl e)
  then show ?thesis by (simp add: mistral_generation_cell_def)
next
  case (Inr enc)
  then show ?thesis by (simp add: mistral_cell_calls)
qed


lemma falcon_cell_run:
  "pipeline lib (calls w) p (falcon_kwargs tok) = Inr seqs \<Longrightarrow>
   falcon_generation_cell lib tok p w =
     ((if list_all has_text seqs then Inr () else Inl KeyError),
      w\<lparr>calls := calls w @ [PipelineCall p (falcon_kwargs tok)],
        stdout := stdout w @ map result_line (takeWhile has_text seqs)\<rparr>)"
  by (simp add: falcon_generation_cell_def print_results_run)




subsection \<open>Prompt validation\<close>

text \<open>
  C3 (as amended). The Falcon cell does not validate the prompt. For the empty prompt it
  still makes its one call into the pipeline, with the empty string as the prompt, and
  if the cell ends in an exception, that exception is the one the pipeline raised (or
  the \<open>KeyError\<close> of a returned element without \<open>generated_text\<close>): the cell has no
  validation error of its own.
\<close>

theorem empty_prompt_dispatched:
  "calls (snd (falcon_generation_cell lib tok '''' w)) = calls w @ [PipelineCall '''' (falcon_kwargs tok)]
   \<and> (fst (falcon_generation_cell lib tok '''' w) = Inl e \<longrightarrow>
        e = KeyError \<or> pipeline lib (calls w) '''' (falcon_kwargs tok) = Inl e)"
  using falcon_cell_calls [of lib tok "''''" w] falcon_cell_error [of lib tok "''''" w e]
  by blast

text \<open>The amended statement at a library whose pipeline raises on the empty prompt.\<close>

theorem empty_prompt_dispatched_witness:
  "fst (falcon_generation_cell interrupted_once_lib tok0 '''' w0) = Inl KeyboardInterrupt
   \<and> pipeline interrupted_once_lib (calls w0) '''' (falcon_kwargs tok0) = Inl KeyboardInterrupt
   \<and> calls (snd (falcon_generation_cell interrupted_once_lib tok0 '''' w0)) = [PipelineCall '''' (falcon_kwargs tok0)]"
  using empty_prompt_dispatched [of interrupted_once_lib tok0 w0 KeyboardInterrupt]
  by (simp add: falcon_generation_cell_def interrupted_once_lib_def w0_def)

text \<open>
  C3 as stated fails: with the empty prompt the cell completes normally, the pipeline
  has been called once with the empty string, and its result has been printed.
\<close>

theorem empty_prompt_counterexample:
  "fst (falcon_generation_cell echo_lib tok0 '''' w0) = Inr ()
   \<and> calls (snd (falcon_generation_cell echo_lib tok0 '''' w0)) = [PipelineCall '''' (falcon_kwargs tok0)]
   \<and> stdout (snd (falcon_generation_cell echo_lib tok0 '''' w0)) = [''Result:  ...'']"
  by (simp add: falcon_generation_cell_def echo_lib_def w0_def print_line_def)

subsection \<open>Interruption\<close>

text \<open>
  C5 (as amended). A \<open>KeyboardInterrupt\<close> raised inside the pipeline call leaves the
  Falcon cell as that exception, with the one call made and nothing printed. The
  notebook keeps no session state and has no acknowledgement step: after any outcome of
  a run (completed, failed or interrupted), the next run of the cell calls the pipeline
  again; if that call returns, the cell prints one line \<open>Result: <generated_text>\<close> per
  returned sequence, in order, up to the first sequence without the key
  \<open>generated_text\<close>, where it raises \<open>KeyError\<close>, and it completes normally when every
  sequence has the key.
\<close>

theorem interrupt_escapes_rerun_dispatches:
  "(pipeline lib (calls w) p (falcon_kwargs tok) = Inl KeyboardInterrupt \<longrightarrow>
      falcon_generation_cell lib tok p w =
        (Inl KeyboardInterrupt, w\<lparr>calls := calls w @ [PipelineCall p (falcon_kwargs tok)]\<rparr>))
   \<and> calls (snd (falcon_generation_cell lib tok p (snd (falcon_generation_cell lib tok p w)))) =
        calls w @ [PipelineCall p (falcon_kwargs tok), PipelineCall p (falcon_kwargs tok)]
   \<and> (pipeline lib (calls w @ [PipelineCall p (falcon_kwargs tok)]) p (falcon_kwargs tok) = Inr seqs \<longrightarrow>
        fst (falcon_generation_cell lib tok p (snd (falcon_generation_cell lib tok p w))) =
          (if list_all has_text seqs then Inr () else Inl KeyError)
        \<and> stdout (snd (falcon_generation_cell lib tok p (snd (falcon_generation_cell lib tok p w)))) =
            stdout (snd (falcon_generation_cell lib tok p w)) @ map result_line (takeWhile has_text seqs))"
proof (intro conjI impI)
  assume "pipeline lib (calls w) p (falcon_kwargs tok) = Inl KeyboardInterrupt"
  then show "falcon_generation_cell lib tok p w =
        (Inl KeyboardInterrupt, w\<lparr>calls := calls w @ [PipelineCall p (falcon_kwargs tok)]\<rparr>)"
    by (rule falcon_cell_raises)
next
  show "calls (snd (falcon_generation_cell lib tok p (snd (falcon_generation_cell lib tok p w)))) =
        calls w @ [PipelineCall p (falcon_kwargs tok), PipelineCall p (falcon_kwargs tok)]"
    by (simp add: falcon_cell_calls)
next
  assume "pipeline lib (calls w @ [PipelineCall p (falcon_kwargs tok)]) p (falcon_kwargs tok) = Inr seqs"
  then have second: "pipeline lib (calls (snd (falcon_generation_cell lib tok p w))) p (falcon_kwargs tok)
      = Inr seqs"
    by (simp add: falcon_cell_calls)
  show "fst (falcon_generation_cell lib tok p (snd (falcon_generation_cell lib tok p w))) =
          (if list_all has_text seqs then Inr () else Inl KeyError)"
    by (simp add: falcon_cell_run [OF second])
  show "stdout (snd (falcon_generation_cell lib tok p (snd (falcon_generation_cell lib tok p w)))) =
            stdout (snd (falcon_generation_cell lib tok p w)) @ map result_line (takeWhile has_text seqs)"
    by (simp add: falcon_cell_run [OF second])
qed

text \<open>The amended statement at a library whose first pipeline call is interrupted and
  whose second call returns one sequence.\<close>

theorem interrupt_escapes_rerun_dispatches_witness:
  "pipeline interrupted_once_lib (calls w0) falcon_prompt (falcon_kwargs tok0) = Inl KeyboardInterrupt
   \<and> falcon_generation_cell interrupted_once_lib tok0 falcon_prompt w0 =
       (Inl KeyboardInterrupt, w0\<lparr>calls := [PipelineCall falcon_prompt (falcon_kwargs tok0)]\<rparr>)
   \<and> pipeline interrupted_once_lib (calls w0 @ [PipelineCall falcon_prompt (falcon_kwargs tok0)])
        falcon_prompt (falcon_kwargs tok0) = Inr [[(''generated_text'', falcon_prompt @ '' ...'')]]
   \<and> fst (falcon_generation_cell interrupted_once_lib tok0 falcon_prompt
        (snd (falcon_generation_cell interrupted_once_lib tok0 falcon_prompt w0))) = Inr ()
   \<and> stdout (snd (falcon_generation_cell interrupted_once_lib tok0 falcon_prompt
        (snd (falcon_generation_cell interrupted_once_lib tok0 falcon_prompt w0))))
       = [''Result: '' @ falcon_prompt @ '' ...'']
   \<and> calls (snd (falcon_generation_cell interrupted_once_lib tok0 falcon_prompt
        (snd (falcon_generation_cell interrupted_once_lib tok0 falcon_prompt w0))))
       = [PipelineCall falcon_prompt (falcon_kwargs tok0), PipelineCall falcon_prompt (falcon_kwargs tok0)]"
  using interrupt_escapes_rerun_dispatches
    [of interrupted_once_lib w0 falcon_prompt tok0
        "[[(''generated_text'', falcon_prompt @ '' ...'')]]"]
  by (simp add: interrupted_once_lib_def w0_def has_text_def result_line_def
        falcon_generation_cell_def print_line_def)

text \<open>
  C5 as stated fails: the first run is interrupted; the second run, with nothing done in
  between, does not fail fast but starts a new generation, completes and prints.
\<close>

theorem interrupt_then_rerun_counterexample:
  "fst (falcon_generation_cell interrupted_once_lib tok0 falcon_prompt w0) = Inl KeyboardInterrupt
   \<and> fst (falcon_generation_cell interrupted_once_lib tok0 falcon_prompt
            (snd (falcon_generation_cell interrupted_once_lib tok0 falcon_prompt w0))) = Inr ()
   \<and> stdout (snd (falcon_generation_cell interrupted_once_lib tok0 falcon_prompt
            (snd (falcon_generation_cell interrupted_once_lib tok0 falcon_prompt w0))))
         = [''Result: who invented computers ...'']
   \<and> length (calls (snd (falcon_generation_cell interrupted_once_lib tok0 falcon_prompt
            (snd (falcon_generation_cell interrupted_once_lib tok0 falcon_prompt w0))))) = 2"
  by (simp add: falcon_generation_cell_def interrupted_once_lib_def w0_def print_line_def
        falcon_prompt_def)

subsection \<open>One generation call per run\<close>

text \<open>
  C6. Each run of a generation cell calls the generator exactly once. The Falcon cell
  records exactly one pipeline call whatever the pipeline does (returns, fails or is
  interrupted). The Mistral cell records exactly one \<open>model.generate\<close> call once
  tokenization has returned, whatever generation and decoding then do, and never more
  than one in any case. Neither cell retries.
\<close>

theorem one_backend_call_per_run:
  "length (calls (snd (falcon_generation_cell lib tok p w))) = Suc (length (calls w))
   \<and> (tokenize lib (tokenizer g) t tokenizer_kwargs = Inr enc \<longrightarrow>
        length (calls (snd (mistral_generation_cell lib g t w))) = Suc (length (calls w)))
   \<and> length (calls (snd (mistral_generation_cell lib g t w))) \<le> Suc (length (calls w))"
  by (simp add: falcon_cell_calls mistral_cell_calls mistral_cell_at_most_one_call)

text \<open>At a library whose generator fails on its first call: still one call, no retry.\<close>

theorem one_backend_call_per_run_witness:
  "length (calls (snd (falcon_generation_cell interrupted_once_lib tok0 falcon_prompt w0))) = Suc (length (calls w0))
   \<and> tokenize interrupted_once_lib (tokenizer g0) mistral_text tokenizer_kwargs = Inr enc0
   \<and> length (calls (snd (mistral_generation_cell interrupted_once_lib g0 mistral_text w0))) = Suc (length (calls w0))
   \<and> fst (mistral_generation_cell interrupted_once_lib g0 mistral_text w0) = Inl KeyboardInterrupt"
  using one_backend_call_per_run [of interrupted_once_lib tok0 falcon_prompt w0 g0 mistral_text enc0]
  by (simp add: interrupted_once_lib_def mistral_generation_cell_def w0_def)

subsection \<open>What is printed\<close>



subsection \<open>The unused stop list\<close>

text \<open>
  C10. The Mistral generation cell does not depend on \<open>stop_token_ids\<close>: whatever list
  that variable holds, the cell makes the same calls with the same arguments, ends with
  the same outcome and prints the same output.
\<close>

theorem generation_ignores_stop_token_ids:
  "mistral_generation_cell lib (g\<lparr>stop_token_ids := ids\<rparr>) t w = mistral_generation_cell lib g t w"
  by (simp add: mistral_generation_cell_def Let_def split: sum.splits list.splits)

end
